theory Spec2Isabelle
  imports Complex_Main
begin

section \<open>Conventions of the embedding\<close>

text \<open>
  The Empathy Engine is a Python program. Its three core modules are embedded here:
  \<^verbatim>\<open>emotion_detector.py\<close>, \<^verbatim>\<open>voice_modulator.py\<close> and \<^verbatim>\<open>empathy_engine.py\<close>.

  \<^item> A Python \<^verbatim>\<open>str\<close> is a \<^typ>\<open>string\<close>; a character stands for the code point of
    the same number, so the embedding covers texts over U+0000..U+00FF.
  \<^item> A Python \<^verbatim>\<open>float\<close> is a \<^typ>\<open>real\<close>: arithmetic is exact, binary rounding is
    not represented. Concrete inputs used below are dyadic where that matters.
  \<^item> An exception is a value of \<open>py_exception\<close>; a function that can raise returns a sum
    with \<open>Inl\<close> for the exception.
  \<^item> Everything outside the program (the sentiment scorer, the transformer pipeline, the
    clock, the file system, the speech engines, the HTTP service) is a field of a record of
    outcomes; every call to it is appended to a trace that is passed along as state.
\<close>

type_synonym pyfloat = real

datatype py_exception = FileNotFoundError | AttributeError | KeyError | Raised string

datatype level = INFO | WARNING | ERROR

datatype event =
    Log level string
  | CallTextBlob string
  | CallClassifier string
  | ReadClock
  | MakeDirs string
  | SetRate int
  | SetVolume pyfloat
  | Synthesize string string
  | PathExists string
  | MoveFile string string
  | GttsSave string bool string
  | HttpPost string string pyfloat
  | WriteFile string string

record state =
  ticks :: nat
  trace :: "event list"

definition write_log :: "level \<Rightarrow> string \<Rightarrow> state \<Rightarrow> state" where
  "write_log l m s = s\<lparr>trace := trace s @ [Log l m]\<rparr>"

definition emit :: "event \<Rightarrow> state \<Rightarrow> state" where
  "emit e s = s\<lparr>trace := trace s @ [e]\<rparr>"

section \<open>Python built-ins used by the program\<close>

text \<open>\<^verbatim>\<open>str.isspace\<close> and the regular-expression class \<^verbatim>\<open>\s\<close> on U+0000..U+00FF.\<close>

definition isspace :: "char \<Rightarrow> bool" where
  "isspace c = (let n = (of_char c :: nat)
                in (9 \<le> n \<and> n \<le> 13) \<or> (28 \<le> n \<and> n \<le> 32) \<or> n = 133 \<or> n = 160)"

text \<open>\<^verbatim>\<open>str.isupper\<close> of a single character on U+0000..U+00FF.\<close>

definition isupper :: "char \<Rightarrow> bool" where
  "isupper c = (let n = (of_char c :: nat)
                in (65 \<le> n \<and> n \<le> 90) \<or> (192 \<le> n \<and> n \<le> 214) \<or> (216 \<le> n \<and> n \<le> 222))"

text \<open>\<^verbatim>\<open>str.lower\<close>: on this range every upper-case letter is 32 below its lower-case form.\<close>

definition lower_char :: "char \<Rightarrow> char" where
  "lower_char c = (if isupper c then char_of ((of_char c :: nat) + 32) else c)"

definition str_lower :: "string \<Rightarrow> string" where
  "str_lower s = map lower_char s"

text \<open>\<^verbatim>\<open>str.strip()\<close> with no argument.\<close>

definition strip :: "string \<Rightarrow> string" where
  "strip s = rev (dropWhile isspace (rev (dropWhile isspace s)))"

text \<open>
  \<^verbatim>\<open>s.replace(old, new)\<close> for a non-empty \<open>old\<close>: every occurrence, left to right,
  without overlap. (The program never calls it with an empty \<open>old\<close>; there the text is
  returned as it is.)
\<close>

function str_replace :: "string \<Rightarrow> string \<Rightarrow> string \<Rightarrow> string" where
  "str_replace old new [] = []"
| "str_replace old new (c # cs) =
     (if old \<noteq> [] \<and> take (length old) (c # cs) = old
      then new @ str_replace old new (drop (length old) (c # cs))
      else c # str_replace old new cs)"
  by pat_completeness auto
termination
  by (relation "measure (\<lambda>(old, new, s). length s)") (auto simp: Suc_le_eq)

text \<open>\<^verbatim>\<open>int(x)\<close> of a float: truncation toward zero.\<close>

definition py_int :: "pyfloat \<Rightarrow> int" where
  "py_int x = (if 0 \<le> x then \<lfloor>x\<rfloor> else \<lceil>x\<rceil>)"

text \<open>\<^verbatim>\<open>round(x, 2)\<close>: the nearest multiple of 0.01, a tie going to the even one.\<close>

definition round_half_even :: "real \<Rightarrow> int" where
  "round_half_even y =
     (let f = \<lfloor>y\<rfloor>; d = y - of_int f
      in if d < 1 / 2 then f else if 1 / 2 < d then f + 1 else if even f then f else f + 1)"

definition py_round2 :: "pyfloat \<Rightarrow> pyfloat" where
  "py_round2 x = of_int (round_half_even (x * 100)) / 100"

text \<open>\<^verbatim>\<open>str(n)\<close> of an integer, as an f-string formats it.\<close>

definition digit_char :: "nat \<Rightarrow> char" where
  "digit_char d = ''0123456789'' ! d"

fun str_nat :: "nat \<Rightarrow> string" where
  "str_nat n = (if n < 10 then [digit_char n] else str_nat (n div 10) @ [digit_char (n mod 10)])"

declare str_nat.simps [simp del]

definition str_int :: "int \<Rightarrow> string" where
  "str_int i = (if i < 0 then CHR ''-'' # str_nat (nat (- i)) else str_nat (nat i))"

text \<open>
  A \<^verbatim>\<open>dict\<close> whose order is observable is an association list; \<open>dict_set\<close> is
  \<^verbatim>\<open>d[k] = v\<close> (a key that is present keeps its place), \<open>dict_get\<close> is
  \<^verbatim>\<open>d.get(k, default)\<close>.
\<close>

fun dict_set :: "'k \<Rightarrow> 'v \<Rightarrow> ('k \<times> 'v) list \<Rightarrow> ('k \<times> 'v) list" where
  "dict_set k v [] = [(k, v)]"
| "dict_set k v ((k', v') # d) = (if k' = k then (k, v) # d else (k', v') # dict_set k v d)"

definition dict_get :: "('k \<times> 'v) list \<Rightarrow> 'k \<Rightarrow> 'v \<Rightarrow> 'v" where
  "dict_get d k dflt = (case map_of d k of Some v \<Rightarrow> v | None \<Rightarrow> dflt)"

text \<open>\<^verbatim>\<open>os.path.dirname\<close> and \<^verbatim>\<open>os.path.join\<close> (POSIX flavour, separator \<open>/\<close>).\<close>

definition rstrip_sep :: "string \<Rightarrow> string" where
  "rstrip_sep p = rev (dropWhile (\<lambda>c. c = CHR ''/'') (rev p))"

definition os_path_dirname :: "string \<Rightarrow> string" where
  "os_path_dirname p =
     (let head = rev (dropWhile (\<lambda>c. c \<noteq> CHR ''/'') (rev p))
      in if head \<noteq> [] \<and> \<not> list_all (\<lambda>c. c = CHR ''/'') head then rstrip_sep head else head)"

definition os_path_join :: "string \<Rightarrow> string \<Rightarrow> string" where
  "os_path_join a b =
     (if take 1 b = ''/'' then b
      else if a = [] \<or> last a = CHR ''/'' then a @ b
      else a @ ''/'' @ b)"

section \<open>The emotion detector (\<^verbatim>\<open>emotion_detector.py\<close>)\<close>

subsection \<open>\<^verbatim>\<open>_clean_text\<close>\<close>

text \<open>\<^verbatim>\<open>re.sub(r'\s+', ' ', text)\<close>: each maximal run of whitespace becomes one space.\<close>

function collapse_ws :: "string \<Rightarrow> string" where
  "collapse_ws [] = []"
| "collapse_ws (c # cs) =
     (if isspace c then CHR '' '' # collapse_ws (dropWhile isspace cs) else c # collapse_ws cs)"
  by pat_completeness auto
termination
  by (relation "measure length") (auto simp: length_dropWhile_le less_Suc_eq_le)

text \<open>
  \<^verbatim>\<open>re.sub(r'http\S+', '', text)\<close>: scanning from the left, \<open>http\<close> followed by at least
  one non-whitespace character is deleted together with the whole run of non-whitespace
  characters after it; the scan goes on behind the deleted piece.
\<close>

function remove_urls :: "string \<Rightarrow> string" where
  "remove_urls [] = []"
| "remove_urls (c # cs) =
     (if take 4 (c # cs) = ''http'' \<and>
         (case drop 4 (c # cs) of [] \<Rightarrow> False | d # _ \<Rightarrow> \<not> isspace d)
      then remove_urls (dropWhile (\<lambda>d. \<not> isspace d) (drop 4 (c # cs)))
      else c # remove_urls cs)"
  by pat_completeness auto
termination
  apply (relation "measure length")
    apply simp
   apply (simp only: in_measure)
   apply (rule le_less_trans[OF length_dropWhile_le])
   apply (auto split: list.splits)
  done

definition clean_text :: "string \<Rightarrow> string" where
  "clean_text text = remove_urls (strip (collapse_ws text))"

subsection \<open>The detector object and its results\<close>

text \<open>
  \<open>sentiment\<close> is \<^verbatim>\<open>TextBlob(text).sentiment\<close> (polarity, subjectivity);
  \<open>emotion_classifier\<close> is the transformer pipeline, \<open>None\<close> when it was not loaded, and a
  call to it either raises or returns the (label, score) list of its first element.
\<close>

record detector =
  use_advanced :: bool
  emotion_classifier :: "(string \<Rightarrow> py_exception + (string \<times> pyfloat) list) option"
  sentiment :: "string \<Rightarrow> pyfloat \<times> pyfloat"

record emotion_result =
  emotion :: "string option"
  score :: pyfloat
  details :: "(string \<times> pyfloat) list"

record intensity_result = emotion_result +
  intensity :: string

subsection \<open>\<^verbatim>\<open>_basic_sentiment_analysis\<close>\<close>

definition basic_sentiment_analysis :: "detector \<Rightarrow> string \<Rightarrow> state \<Rightarrow> emotion_result \<times> state" where
  "basic_sentiment_analysis det text s =
     (let (polarity, subjectivity) = sentiment det text;
          s1 = emit (CallTextBlob text) s;
          (emo, sc) =
            (if polarity > 0.3 then (''happy'', min 1.0 (0.5 + polarity))
             else if polarity < - 0.3 then (''sad'', min 1.0 (0.5 - polarity))
             else if polarity > 0.1 then (''positive'', 0.5 + polarity)
             else if polarity < - 0.1 then (''negative'', 0.5 - polarity)
             else (''neutral'', 1.0 - \<bar>polarity\<bar>));
          sc' = sc * (0.5 + subjectivity / 2)
      in (\<lparr>emotion = Some emo, score = py_round2 sc',
           details = [(''polarity'', py_round2 polarity),
                      (''subjectivity'', py_round2 subjectivity)]\<rparr>, s1))"

subsection \<open>\<^verbatim>\<open>_advanced_emotion_analysis\<close>\<close>

text \<open>The loop over the pipeline's results: (max_score, max_emotion, emotions).\<close>

fun scan_results ::
  "(string \<times> pyfloat) list \<Rightarrow> pyfloat \<times> string option \<times> (string \<times> pyfloat) list
     \<Rightarrow> pyfloat \<times> string option \<times> (string \<times> pyfloat) list" where
  "scan_results [] acc = acc"
| "scan_results ((label, sc) # rest) (max_score, max_emotion, emotions) =
     (let emotions' = dict_set label (py_round2 sc) emotions
      in if sc > max_score then scan_results rest (sc, Some label, emotions')
         else scan_results rest (max_score, max_emotion, emotions'))"

definition advanced_emotion_analysis ::
  "detector \<Rightarrow> (string \<Rightarrow> py_exception + (string \<times> pyfloat) list) \<Rightarrow> string \<Rightarrow> state
     \<Rightarrow> emotion_result \<times> state" where
  "advanced_emotion_analysis det classifier text s =
     (let s1 = emit (CallClassifier text) s
      in case classifier text of
           Inr results \<Rightarrow>
             (let (max_score, max_emotion, emotions) = scan_results results (0, None, [])
              in (\<lparr>emotion = max_emotion, score = py_round2 max_score, details = emotions\<rparr>, s1))
         | Inl e \<Rightarrow>
             basic_sentiment_analysis det text
               (write_log WARNING ''Falling back to basic sentiment analysis''
                 (write_log ERROR ''Error in advanced emotion analysis'' s1)))"

subsection \<open>\<^verbatim>\<open>detect_emotion\<close> and \<^verbatim>\<open>analyze_with_intensity\<close>\<close>

definition detect_emotion :: "detector \<Rightarrow> string \<Rightarrow> state \<Rightarrow> emotion_result \<times> state" where
  "detect_emotion det text s =
     (if text = [] then (\<lparr>emotion = Some ''neutral'', score = 1.0, details = []\<rparr>, s)
      else
        let cleaned_text = clean_text text;
            (result, s1) =
              (case (if use_advanced det then emotion_classifier det else None) of
                 Some classifier \<Rightarrow> advanced_emotion_analysis det classifier cleaned_text s
               | None \<Rightarrow> basic_sentiment_analysis det cleaned_text s)
        in (result, write_log INFO ''Detected emotion'' s1))"

definition analyze_with_intensity :: "detector \<Rightarrow> string \<Rightarrow> state \<Rightarrow> intensity_result \<times> state" where
  "analyze_with_intensity det text s =
     (let (result, s1) = detect_emotion det text s;
          emo = emotion result;
          sc = score result;
          intens = (if sc < 0.4 then ''low'' else if sc < 0.7 then ''medium'' else ''high'');
          exclamations = length (filter (\<lambda>c. c = CHR ''!'') text);
          questions = length (filter (\<lambda>c. c = CHR ''?'') text);
          caps_ratio = real (length (filter isupper text))
                       / real (max (length (str_replace '' '' '''' text)) 1);
          intens' = (if exclamations > 2 \<or> caps_ratio > 0.3
                     then (if intens \<noteq> ''high'' then ''high'' else intens)
                     else intens)
      in (\<lparr>emotion = emo, score = sc,
           details = dict_set ''caps_ratio'' (py_round2 caps_ratio)
                       (dict_set ''questions'' (real questions)
                         (dict_set ''exclamations'' (real exclamations) (details result))),
           intensity = intens'\<rparr>, s1))"

section \<open>The voice modulator (\<^verbatim>\<open>voice_modulator.py\<close>)\<close>

subsection \<open>The outside world\<close>

text \<open>
  \<open>clock k\<close> is the value of the \<open>k\<close>-th call of \<^verbatim>\<open>time.time()\<close>; \<open>package_dir\<close> is
  the directory above the module's own; the other fields give the outcome of a call to
  the operating system or to a speech service: \<open>None\<close> when it succeeds, the exception
  when it raises.
\<close>

record env =
  clock :: "nat \<Rightarrow> pyfloat"
  package_dir :: string
  makedirs_outcome :: "string \<Rightarrow> py_exception option"
  synth_outcome :: "string \<Rightarrow> string \<Rightarrow> py_exception option"
  exists_outcome :: "string \<Rightarrow> bool"
  move_outcome :: "string \<Rightarrow> string \<Rightarrow> py_exception option"
  gtts_outcome :: "string \<Rightarrow> bool \<Rightarrow> string \<Rightarrow> py_exception option"
  post_outcome :: "string \<Rightarrow> string \<Rightarrow> pyfloat \<Rightarrow> py_exception + (nat \<times> string)"
  write_outcome :: "string \<Rightarrow> string \<Rightarrow> py_exception option"

definition time_time :: "env \<Rightarrow> state \<Rightarrow> pyfloat \<times> state" where
  "time_time env s = (clock env (ticks s), s\<lparr>ticks := Suc (ticks s), trace := trace s @ [ReadClock]\<rparr>)"

text \<open>
  \<^verbatim>\<open>os.makedirs(p, exist_ok=True)\<close>: on the empty path it raises
  \<^verbatim>\<open>FileNotFoundError\<close> on every system; elsewhere the file system decides.
\<close>

definition os_makedirs :: "env \<Rightarrow> string \<Rightarrow> state \<Rightarrow> py_exception option \<times> state" where
  "os_makedirs env p s =
     ((if p = [] then Some FileNotFoundError else makedirs_outcome env p), emit (MakeDirs p) s)"

subsection \<open>The modulator object and its tables\<close>

record modulator =
  engine_type :: string
  elevenlabs_api_key :: "string option"
  elevenlabs_voice_id :: string
  default_rate :: pyfloat
  default_volume :: pyfloat

definition emotion_mapping :: "(string \<times> pyfloat \<times> pyfloat \<times> pyfloat) list" where
  "emotion_mapping =
     [(''happy'', 1.2, 1.15, 1.1),
      (''excited'', 1.3, 1.2, 1.15),
      (''sad'', 0.9, 0.85, 0.9),
      (''angry'', 1.1, 1.05, 1.2),
      (''fear'', 1.15, 1.1, 0.95),
      (''neutral'', 1.0, 1.0, 1.0),
      (''surprise'', 1.15, 1.2, 1.15),
      (''positive'', 1.1, 1.1, 1.05),
      (''negative'', 0.95, 0.95, 0.95),
      (''concerned'', 0.95, 0.95, 1.05)]"

definition intensity_mapping :: "(string \<times> pyfloat) list" where
  "intensity_mapping = [(''low'', 0.5), (''medium'', 1.0), (''high'', 1.5)]"

subsection \<open>The output file name\<close>

text \<open>
  \<^verbatim>\<open>os.path.join(parent_dir, "output", f"speech_{int(time.time())}.mp3")\<close>, and the same
  with \<^verbatim>\<open>.wav\<close> for the local engine.
\<close>

definition speech_file :: "env \<Rightarrow> pyfloat \<Rightarrow> string \<Rightarrow> string" where
  "speech_file env t ext =
     os_path_join (os_path_join (package_dir env) ''output'') (''speech_'' @ str_int (py_int t) @ ext)"

subsection \<open>\<^verbatim>\<open>_apply_pyttsx3_modulation\<close>\<close>

definition pyttsx3_except :: "state \<Rightarrow> string option \<times> state" where
  "pyttsx3_except s = (None, write_log ERROR ''Error in pyttsx3 modulation'' s)"

definition apply_pyttsx3_modulation ::
  "modulator \<Rightarrow> env \<Rightarrow> string \<Rightarrow> pyfloat \<Rightarrow> pyfloat \<Rightarrow> pyfloat \<Rightarrow> state \<Rightarrow> string option \<times> state" where
  "apply_pyttsx3_modulation vm env text rate_modifier pitch_modifier volume_modifier s =
     (let new_rate = py_int (default_rate vm * rate_modifier);
          new_volume = min 1.0 (default_volume vm * volume_modifier);
          s1 = emit (SetVolume new_volume) (emit (SetRate new_rate) s);
          (t, s2) = time_time env s1;
          output_file = speech_file env t ''.wav'';
          (r1, s3) = os_makedirs env (os_path_dirname output_file) s2
      in case r1 of
           Some e \<Rightarrow> pyttsx3_except s3
         | None \<Rightarrow>
            (let s4 = emit (Synthesize text output_file) (write_log INFO ''Creating audio file'' s3)
             in case synth_outcome env text output_file of
                  Some e \<Rightarrow> pyttsx3_except s4
                | None \<Rightarrow>
                   if pitch_modifier \<noteq> 1.0 then
                     (let pitch_adjusted_rate = py_int (of_int new_rate * (pitch_modifier * 0.5 + 0.5));
                          s5 = emit (SetRate pitch_adjusted_rate) s4;
                          pitch_output_file = str_replace ''.wav'' ''_pitched.wav'' output_file;
                          s6 = emit (Synthesize text pitch_output_file) s5
                      in case synth_outcome env text pitch_output_file of
                           Some e \<Rightarrow> pyttsx3_except s6
                         | None \<Rightarrow>
                            (let s7 = emit (PathExists pitch_output_file) s6
                             in if exists_outcome env pitch_output_file then
                                  (let s8 = emit (MoveFile pitch_output_file output_file) s7
                                   in case move_outcome env pitch_output_file output_file of
                                        Some e \<Rightarrow> pyttsx3_except s8
                                      | None \<Rightarrow> (Some output_file, write_log INFO ''Generated audio'' s8))
                                else (Some output_file, write_log INFO ''Generated audio'' s7)))
                   else (Some output_file, write_log INFO ''Generated audio'' s4)))"

subsection \<open>\<^verbatim>\<open>_apply_gtts_modulation\<close>\<close>

text \<open>
  The method reads no field of the modulator object. Its local \<^verbatim>\<open>wav_output\<close> is computed
  and never used, and is left out. A log record keeps the level and the constant part of
  the message, here and below.
\<close>

definition gtts_except :: "state \<Rightarrow> string option \<times> state" where
  "gtts_except s = (None, write_log ERROR ''Error in gTTS modulation'' s)"

definition apply_gtts_modulation ::
  "env \<Rightarrow> string \<Rightarrow> pyfloat \<Rightarrow> pyfloat \<Rightarrow> pyfloat \<Rightarrow> state \<Rightarrow> string option \<times> state" where
  "apply_gtts_modulation env text rate_modifier pitch_modifier volume_modifier s =
     (let (t, s1) = time_time env s;
          output_file = speech_file env t ''.mp3'';
          (r1, s2) = os_makedirs env (os_path_dirname output_file) s1
      in case r1 of
           Some e \<Rightarrow> gtts_except s2
         | None \<Rightarrow>
            (let slow = (rate_modifier < 0.9);
                 s3 = emit (GttsSave text slow output_file) s2
             in case gtts_outcome env text slow output_file of
                  Some e \<Rightarrow> gtts_except s3
                | None \<Rightarrow> (Some output_file, write_log INFO ''Generated audio file'' s3)))"

subsection \<open>\<^verbatim>\<open>_apply_elevenlabs_modulation\<close>\<close>

text \<open>The f-string of \<open>ssml_text\<close>, with the three formatted integers as arguments.\<close>

definition prosody_markup :: "string \<Rightarrow> int \<Rightarrow> int \<Rightarrow> int \<Rightarrow> string" where
  "prosody_markup text rate pitch volume =
     [CHR 0x0A] @ replicate 12 (CHR '' '') @ ''<speak>'' @
     [CHR 0x0A] @ replicate 16 (CHR '' '') @
       ''<prosody rate='' @ [CHR 0x22] @ str_int rate @ ''%'' @ [CHR 0x22] @
       '' pitch='' @ [CHR 0x22] @ str_int pitch @ ''%'' @ [CHR 0x22] @
       '' volume='' @ [CHR 0x22] @ str_int volume @ ''%'' @ [CHR 0x22] @ ''>'' @
     [CHR 0x0A] @ replicate 20 (CHR '' '') @ text @
     [CHR 0x0A] @ replicate 16 (CHR '' '') @ ''</prosody>'' @
     [CHR 0x0A] @ replicate 12 (CHR '' '') @ ''</speak>'' @
     [CHR 0x0A] @ replicate 12 (CHR '' '')"

definition ssml_text :: "string \<Rightarrow> pyfloat \<Rightarrow> pyfloat \<Rightarrow> pyfloat \<Rightarrow> string" where
  "ssml_text text rate_modifier pitch_modifier volume_modifier =
     prosody_markup text (py_int ((rate_modifier - 1) * 100))
       (py_int ((pitch_modifier - 1) * 100)) (py_int ((volume_modifier - 1) * 100))"

definition stability :: "pyfloat \<Rightarrow> pyfloat" where
  "stability rate_modifier =
     (if rate_modifier > 1.1 then 0.3 else if rate_modifier < 0.9 then 0.7 else 0.5)"

definition elevenlabs_url :: "modulator \<Rightarrow> string" where
  "elevenlabs_url vm = ''https://api.elevenlabs.io/v1/text-to-speech/'' @ elevenlabs_voice_id vm"

text \<open>The \<^verbatim>\<open>except Exception\<close> block, and the \<^verbatim>\<open>else\<close> branch of the status test.\<close>

definition elevenlabs_except ::
  "env \<Rightarrow> string \<Rightarrow> pyfloat \<Rightarrow> pyfloat \<Rightarrow> pyfloat \<Rightarrow> state \<Rightarrow> string option \<times> state" where
  "elevenlabs_except env text rate_modifier pitch_modifier volume_modifier s =
     apply_gtts_modulation env text rate_modifier pitch_modifier volume_modifier
       (write_log WARNING ''Falling back to gTTS''
         (write_log ERROR ''Error in ElevenLabs modulation'' s))"

definition elevenlabs_bad_status ::
  "env \<Rightarrow> string \<Rightarrow> pyfloat \<Rightarrow> pyfloat \<Rightarrow> pyfloat \<Rightarrow> state \<Rightarrow> string option \<times> state" where
  "elevenlabs_bad_status env text rate_modifier pitch_modifier volume_modifier s =
     apply_gtts_modulation env text rate_modifier pitch_modifier volume_modifier
       (write_log WARNING ''Falling back to gTTS''
         (write_log ERROR ''Error from ElevenLabs API'' s))"

definition apply_elevenlabs_modulation ::
  "modulator \<Rightarrow> env \<Rightarrow> string \<Rightarrow> pyfloat \<Rightarrow> pyfloat \<Rightarrow> pyfloat \<Rightarrow> state \<Rightarrow> string option \<times> state" where
  "apply_elevenlabs_modulation vm env text rate_modifier pitch_modifier volume_modifier s =
     (let (t, s1) = time_time env s;
          output_file = speech_file env t ''.mp3'';
          (r1, s2) = os_makedirs env (os_path_dirname output_file) s1
      in case r1 of
           Some e \<Rightarrow> elevenlabs_except env text rate_modifier pitch_modifier volume_modifier s2
         | None \<Rightarrow>
            (let url = elevenlabs_url vm;
                 stab = stability rate_modifier;
                 ssml = ssml_text text rate_modifier pitch_modifier volume_modifier;
                 s3 = emit (HttpPost url ssml stab) s2
             in case post_outcome env url ssml stab of
                  Inl e \<Rightarrow> elevenlabs_except env text rate_modifier pitch_modifier volume_modifier s3
                | Inr (status_code, content) \<Rightarrow>
                   if status_code = 200 then
                     (let s4 = emit (WriteFile output_file content) s3
                      in case write_outcome env output_file content of
                           Some e \<Rightarrow>
                             elevenlabs_except env text rate_modifier pitch_modifier volume_modifier s4
                         | None \<Rightarrow>
                             (Some output_file,
                              write_log INFO ''Generated audio file with ElevenLabs'' s4))
                   else elevenlabs_bad_status env text rate_modifier pitch_modifier volume_modifier s3))"

subsection \<open>\<^verbatim>\<open>generate_speech\<close>\<close>

definition apply_intensity :: "pyfloat \<Rightarrow> pyfloat \<Rightarrow> pyfloat" where
  "apply_intensity intensity_factor base_mod =
     (if base_mod > 1.0 then 1.0 + (base_mod - 1.0) * intensity_factor
      else if base_mod < 1.0 then 1.0 - (1.0 - base_mod) * intensity_factor
      else base_mod)"

text \<open>Lines 309 to 331: the table look-ups and the three scaled modifiers.\<close>

definition scaled_modifiers :: "string \<Rightarrow> string \<Rightarrow> py_exception + (pyfloat \<times> pyfloat \<times> pyfloat)" where
  "scaled_modifiers emo intens =
     (case map_of emotion_mapping ''neutral'' of
        None \<Rightarrow> Inl KeyError
      | Some neutral \<Rightarrow>
         (let (rate_mod, pitch_mod, volume_mod) = dict_get emotion_mapping (str_lower emo) neutral;
              intensity_factor = dict_get intensity_mapping (str_lower intens) 1.0
          in Inr (apply_intensity intensity_factor rate_mod,
                  apply_intensity intensity_factor pitch_mod,
                  apply_intensity intensity_factor volume_mod)))"

text \<open>Lines 336 to 340: the only use of the \<open>output_file\<close> argument.\<close>

definition prepare_output_dir :: "env \<Rightarrow> string option \<Rightarrow> state \<Rightarrow> py_exception option \<times> state" where
  "prepare_output_dir env output_file s =
     (case output_file of
        None \<Rightarrow> (None, s)
      | Some p \<Rightarrow>
          if p = [] then (None, s)
          else (let (r, s1) = os_makedirs env (os_path_dirname p) s
                in case r of
                     Some e \<Rightarrow> (Some e, s1)
                   | None \<Rightarrow> (None, write_log INFO ''Using specified output file'' s1)))"

definition dispatch ::
  "modulator \<Rightarrow> env \<Rightarrow> string \<Rightarrow> pyfloat \<Rightarrow> pyfloat \<Rightarrow> pyfloat \<Rightarrow> state \<Rightarrow> string option \<times> state" where
  "dispatch vm env text rate_mod pitch_mod volume_mod s =
     (if engine_type vm = ''pyttsx3'' then
        apply_pyttsx3_modulation vm env text rate_mod pitch_mod volume_mod s
      else if engine_type vm = ''elevenlabs'' then
        apply_elevenlabs_modulation vm env text rate_mod pitch_mod volume_mod s
      else apply_gtts_modulation env text rate_mod pitch_mod volume_mod s)"

definition generate_speech ::
  "modulator \<Rightarrow> env \<Rightarrow> string \<Rightarrow> string option \<Rightarrow> string \<Rightarrow> string option \<Rightarrow> state
     \<Rightarrow> (py_exception + string option) \<times> state" where
  "generate_speech vm env text emo intens output_file s =
     (case emo of
        None \<Rightarrow> (Inl AttributeError, s)
      | Some label \<Rightarrow>
         (case scaled_modifiers label intens of
            Inl e \<Rightarrow> (Inl e, s)
          | Inr (rate_mod, pitch_mod, volume_mod) \<Rightarrow>
             (let s1 = write_log INFO ''Modifiers''
                         (write_log INFO ''Generating speech for emotion'' s);
                  (r, s2) = prepare_output_dir env output_file s1
              in case r of
                   Some e \<Rightarrow> (Inl e, s2)
                 | None \<Rightarrow>
                    (let (audio, s3) = dispatch vm env text rate_mod pitch_mod volume_mod s2
                     in (Inr audio, s3)))))"

section \<open>The orchestrator (\<^verbatim>\<open>empathy_engine.py\<close>)\<close>

record empathy_engine =
  emotion_detector :: detector
  voice_modulator :: modulator

definition process ::
  "empathy_engine \<Rightarrow> env \<Rightarrow> string \<Rightarrow> string option \<Rightarrow> state
     \<Rightarrow> (py_exception + (string option \<times> intensity_result)) \<times> state" where
  "process eng env text output_file s =
     (let s1 = write_log INFO ''Processing text'' s;
          (emotion_result, s2) = analyze_with_intensity (emotion_detector eng) text s1;
          s3 = write_log INFO ''Detected emotion and intensity'' s2;
          (r, s4) = generate_speech (voice_modulator eng) env text (emotion emotion_result)
                      (intensity emotion_result) output_file s3
      in case r of
           Inl e \<Rightarrow> (Inl e, s4)
         | Inr audio_file \<Rightarrow>
            (let s5 = (if audio_file \<noteq> None \<and> audio_file \<noteq> Some []
                       then write_log INFO ''Generated audio saved'' s4
                       else write_log ERROR ''Failed to generate audio'' s4)
             in (Inr (audio_file, emotion_result), s5)))"

section \<open>The specification's wording, and predicates on the outside world\<close>



definition spec_base_tier :: "real \<Rightarrow> string" where
  "spec_base_tier sc = (if sc < 0.4 then ''low'' else if sc < 0.7 then ''medium'' else ''high'')"

definition spec_caps_ratio :: "string \<Rightarrow> real" where
  "spec_caps_ratio text =
     (let n = length (filter (\<lambda>c. c \<noteq> CHR '' '') text)
      in if n = 0 then 0 else real (length (filter isupper text)) / real n)"

definition spec_escalates :: "string \<Rightarrow> bool" where
  "spec_escalates text =
     (length (filter (\<lambda>c. c = CHR ''!'') text) > 2 \<or> spec_caps_ratio text > 0.3)"


text \<open>The \<^verbatim>\<open>.mp3\<close> file of a cloud call that starts in state \<open>s\<close>.\<close>

abbreviation mp3_path :: "env \<Rightarrow> state \<Rightarrow> string" where
  "mp3_path env s \<equiv> speech_file env (clock env (ticks s)) ''.mp3''"

text \<open>The two log records written before the ElevenLabs backend hands over to gTTS.\<close>

abbreviation fallback_logs :: "string \<Rightarrow> event list" where
  "fallback_logs m \<equiv> [Log ERROR m, Log WARNING ''Falling back to gTTS'']"


definition elevenlabs_fails ::
  "modulator \<Rightarrow> env \<Rightarrow> string \<Rightarrow> pyfloat \<Rightarrow> pyfloat \<Rightarrow> pyfloat \<Rightarrow> state \<Rightarrow> bool" where
  "elevenlabs_fails vm env text r p v s =
     (let out = mp3_path env s
      in fst (os_makedirs env (os_path_dirname out) s) \<noteq> None \<or>
         (case post_outcome env (elevenlabs_url vm) (ssml_text text r p v) (stability r) of
            Inl e \<Rightarrow> True
          | Inr (status_code, content) \<Rightarrow>
              status_code \<noteq> 200 \<or> write_outcome env out content \<noteq> None))"

fun is_gtts_save :: "event \<Rightarrow> bool" where
  "is_gtts_save (GttsSave t sl p) = True"
| "is_gtts_save e = False"

section \<open>Concrete inputs\<close>

text \<open>
  A machine on which every call to the operating system and to gTTS succeeds, the
  ElevenLabs service answers 401, and the clock reads 1700000000.25 at the first call and
  1700000000.75 afterwards; a detector in lexical mode whose scorer answers polarity 0.5
  and subjectivity 0.75, and one whose scorer answers 0 and 0.
\<close>

definition demo_env :: env where
  "demo_env = \<lparr>clock = (\<lambda>k. if k = 0 then 1700000000.25 else 1700000000.75),
               package_dir = ''/app'',
               makedirs_outcome = (\<lambda>p. None),
               synth_outcome = (\<lambda>t p. None),
               exists_outcome = (\<lambda>p. True),
               move_outcome = (\<lambda>a b. None),
               gtts_outcome = (\<lambda>t sl p. None),
               post_outcome = (\<lambda>u m st. Inr (401, ''unauthorized'')),
               write_outcome = (\<lambda>p c. None)\<rparr>"

definition demo_state :: state where
  "demo_state = \<lparr>ticks = 0, trace = []\<rparr>"

definition demo_modulator :: "string \<Rightarrow> modulator" where
  "demo_modulator e = \<lparr>engine_type = e, elevenlabs_api_key = Some ''key'',
                        elevenlabs_voice_id = ''21m00Tcm4TlvDq8ikWAM'',
                        default_rate = 200, default_volume = 1\<rparr>"

definition demo_detector :: detector where
  "demo_detector =
     \<lparr>use_advanced = False, emotion_classifier = None, sentiment = (\<lambda>t. (0.5, 0.75))\<rparr>"

definition flat_detector :: detector where
  "flat_detector =
     \<lparr>use_advanced = False, emotion_classifier = None, sentiment = (\<lambda>t. (0, 0))\<rparr>"

definition demo_engine :: "string \<Rightarrow> empathy_engine" where
  "demo_engine e = \<lparr>emotion_detector = demo_detector, voice_modulator = demo_modulator e\<rparr>"

section \<open>Facts about the built-ins and the concrete inputs\<close>


lemma fst_os_makedirs:
  "fst (os_makedirs env p s) = (if p = [] then Some FileNotFoundError else makedirs_outcome env p)"
  by (simp add: os_makedirs_def)

lemma length_replace_space:
  "length (str_replace '' '' '''' text) = length (filter (\<lambda>c. c \<noteq> CHR '' '') text)"
  by (induction "text") auto

lemma no_upper_without_nonspace:
  "filter (\<lambda>c. c \<noteq> CHR '' '') text = [] \<Longrightarrow> filter isupper text = []"
  by (induction "text") (auto simp: isupper_def split: if_splits)

lemma caps_ratio_eq:
  "real (length (filter isupper text)) / real (max (length (str_replace '' '' '''' text)) 1)
     = spec_caps_ratio text"
proof (cases "filter (\<lambda>c. c \<noteq> CHR '' '') text = []")
  case True
  then show ?thesis
    by (simp add: spec_caps_ratio_def length_replace_space no_upper_without_nonspace)
next
  case False
  then have "max (length (filter (\<lambda>c. c \<noteq> CHR '' '') text)) 1
               = length (filter (\<lambda>c. c \<noteq> CHR '' '') text)"
    by (cases "filter (\<lambda>c. c \<noteq> CHR '' '') text") simp_all
  with False show ?thesis
    by (simp add: spec_caps_ratio_def length_replace_space Let_def)
qed

lemma demo_mp3_first:
  "speech_file demo_env (clock demo_env 0) ''.mp3'' = ''/app/output/speech_1700000000.mp3''"
  by (simp add: speech_file_def demo_env_def os_path_join_def py_int_def str_int_def
      str_nat.simps digit_char_def)

lemma demo_mp3_second:
  "speech_file demo_env (clock demo_env (Suc 0)) ''.mp3'' = ''/app/output/speech_1700000000.mp3''"
  by (simp add: speech_file_def demo_env_def os_path_join_def py_int_def str_int_def
      str_nat.simps digit_char_def)

lemma demo_wav_first:
  "speech_file demo_env (clock demo_env 0) ''.wav'' = ''/app/output/speech_1700000000.wav''"
  by (simp add: speech_file_def demo_env_def os_path_join_def py_int_def str_int_def
      str_nat.simps digit_char_def)

lemma demo_wav_second:
  "speech_file demo_env (clock demo_env (Suc 0)) ''.wav'' = ''/app/output/speech_1700000000.wav''"
  by (simp add: speech_file_def demo_env_def os_path_join_def py_int_def str_int_def
      str_nat.simps digit_char_def)

lemma dirname_demo_mp3: "os_path_dirname ''/app/output/speech_1700000000.mp3'' = ''/app/output''"
  by (simp add: os_path_dirname_def rstrip_sep_def)

lemma dirname_demo_wav: "os_path_dirname ''/app/output/speech_1700000000.wav'' = ''/app/output''"
  by (simp add: os_path_dirname_def rstrip_sep_def)

lemma dirname_bare: "os_path_dirname ''out.wav'' = []"
  by (simp add: os_path_dirname_def)

section \<open>Facts about the prosody tables\<close>






lemma scaled_modifiers_total: "\<exists>r p v. scaled_modifiers label intens = Inr (r, p, v)"
  by (simp add: scaled_modifiers_def emotion_mapping_def dict_get_def Let_def
      split: prod.splits option.splits)


lemma happy_high: "scaled_modifiers ''happy'' ''high'' = Inr (1.3, 1.225, 1.15)"
  by (simp add: scaled_modifiers_def emotion_mapping_def intensity_mapping_def dict_get_def
      str_lower_def lower_char_def isupper_def apply_intensity_def)

section \<open>Facts about the backends\<close>

subsection \<open>gTTS\<close>

lemma gtts_fst:
  "fst (apply_gtts_modulation env text r p v s) =
     (let out = mp3_path env s
      in if fst (os_makedirs env (os_path_dirname out) s) = None \<and>
            gtts_outcome env text (r < 0.9) out = None
         then Some out else None)"
  by (simp add: apply_gtts_modulation_def time_time_def os_makedirs_def gtts_except_def Let_def
      split: option.splits)

lemma gtts_trace:
  "\<exists>ev. trace (snd (apply_gtts_modulation env text r p v s)) = trace s @ ev \<and>
        length (filter is_gtts_save ev) \<le> 1"
  by (simp add: apply_gtts_modulation_def time_time_def os_makedirs_def gtts_except_def Let_def
      emit_def write_log_def split: option.splits)

lemma gtts_ticks:
  "ticks (snd (apply_gtts_modulation env text r p v s)) = Suc (ticks s)"
  by (simp add: apply_gtts_modulation_def time_time_def os_makedirs_def gtts_except_def Let_def
      emit_def write_log_def split: option.splits)

lemma gtts_fst_ticks:
  "ticks s = ticks s' \<Longrightarrow>
   fst (apply_gtts_modulation env text r p v s) = fst (apply_gtts_modulation env text r p v s')"
  by (simp add: gtts_fst fst_os_makedirs)


lemma gtts_first:
  "fst (apply_gtts_modulation demo_env t r p v (s\<lparr>ticks := 0\<rparr>))
     = Some ''/app/output/speech_1700000000.mp3''"
  using demo_mp3_first dirname_demo_mp3
  by (simp add: gtts_fst fst_os_makedirs) (simp add: demo_env_def)

lemma gtts_second:
  "fst (apply_gtts_modulation demo_env t r p v (s\<lparr>ticks := Suc 0\<rparr>))
     = Some ''/app/output/speech_1700000000.mp3''"
  using demo_mp3_second dirname_demo_mp3
  by (simp add: gtts_fst fst_os_makedirs) (simp add: demo_env_def)

subsection \<open>pyttsx3\<close>



lemma pyttsx3_plain:
  "fst (apply_pyttsx3_modulation vm env text r 1 v s) =
     (let out = speech_file env (clock env (ticks s)) ''.wav''
      in if fst (os_makedirs env (os_path_dirname out) s) = None \<and>
            synth_outcome env text out = None
         then Some out else None)"
  by (simp add: apply_pyttsx3_modulation_def time_time_def os_makedirs_def pyttsx3_except_def
      Let_def emit_def write_log_def split: option.splits)

lemma pyttsx3_ticks:
  "ticks (snd (apply_pyttsx3_modulation vm env text r p v s)) = Suc (ticks s)"
  by (simp add: apply_pyttsx3_modulation_def time_time_def os_makedirs_def pyttsx3_except_def
      Let_def emit_def write_log_def split: option.splits)

subsection \<open>ElevenLabs: one lemma for each way through the function\<close>

lemma elevenlabs_makedirs_raises:
  assumes "fst (os_makedirs env (os_path_dirname (mp3_path env s)) s) \<noteq> None"
  shows "apply_elevenlabs_modulation vm env text r p v s =
           apply_gtts_modulation env text r p v
             (s\<lparr>ticks := Suc (ticks s),
                trace := trace s @ [ReadClock, MakeDirs (os_path_dirname (mp3_path env s))]
                          @ fallback_logs ''Error in ElevenLabs modulation''\<rparr>)"
  using assms
  by (auto simp: apply_elevenlabs_modulation_def time_time_def os_makedirs_def Let_def emit_def
      write_log_def elevenlabs_except_def split: option.splits)

lemma elevenlabs_post_raises:
  assumes "fst (os_makedirs env (os_path_dirname (mp3_path env s)) s) = None"
      and "post_outcome env (elevenlabs_url vm) (ssml_text text r p v) (stability r) = Inl e"
  shows "apply_elevenlabs_modulation vm env text r p v s =
           apply_gtts_modulation env text r p v
             (s\<lparr>ticks := Suc (ticks s),
                trace := trace s @ [ReadClock, MakeDirs (os_path_dirname (mp3_path env s)),
                                   HttpPost (elevenlabs_url vm) (ssml_text text r p v) (stability r)]
                          @ fallback_logs ''Error in ElevenLabs modulation''\<rparr>)"
  using assms
  by (auto simp: apply_elevenlabs_modulation_def time_time_def os_makedirs_def Let_def emit_def
      write_log_def elevenlabs_except_def split: option.splits)

lemma elevenlabs_status_not_200:
  assumes "fst (os_makedirs env (os_path_dirname (mp3_path env s)) s) = None"
      and "post_outcome env (elevenlabs_url vm) (ssml_text text r p v) (stability r)
             = Inr (status_code, content)"
      and "status_code \<noteq> 200"
  shows "apply_elevenlabs_modulation vm env text r p v s =
           apply_gtts_modulation env text r p v
             (s\<lparr>ticks := Suc (ticks s),
                trace := trace s @ [ReadClock, MakeDirs (os_path_dirname (mp3_path env s)),
                                   HttpPost (elevenlabs_url vm) (ssml_text text r p v) (stability r)]
                          @ fallback_logs ''Error from ElevenLabs API''\<rparr>)"
  using assms
  by (auto simp: apply_elevenlabs_modulation_def time_time_def os_makedirs_def Let_def emit_def
      write_log_def elevenlabs_bad_status_def split: option.splits)

lemma elevenlabs_write_raises:
  assumes "fst (os_makedirs env (os_path_dirname (mp3_path env s)) s) = None"
      and "post_outcome env (elevenlabs_url vm) (ssml_text text r p v) (stability r)
             = Inr (200, content)"
      and "write_outcome env (mp3_path env s) content \<noteq> None"
  shows "apply_elevenlabs_modulation vm env text r p v s =
           apply_gtts_modulation env text r p v
             (s\<lparr>ticks := Suc (ticks s),
                trace := trace s @ [ReadClock, MakeDirs (os_path_dirname (mp3_path env s)),
                                   HttpPost (elevenlabs_url vm) (ssml_text text r p v) (stability r),
                                   WriteFile (mp3_path env s) content]
                          @ fallback_logs ''Error in ElevenLabs modulation''\<rparr>)"
  using assms
  by (auto simp: apply_elevenlabs_modulation_def time_time_def os_makedirs_def Let_def emit_def
      write_log_def elevenlabs_except_def split: option.splits)


lemma fallback_intro:
  assumes "run = apply_gtts_modulation env text r p v
                   (s\<lparr>ticks := Suc (ticks s), trace := trace s @ pre @ fallback_logs m\<rparr>)"
      and "filter is_gtts_save pre = []"
  shows "\<exists>s1 pre m. run = apply_gtts_modulation env text r p v s1 \<and>
           ticks s1 = Suc (ticks s) \<and>
           trace s1 = trace s @ pre @ fallback_logs m \<and>
           filter is_gtts_save pre = []"
  using assms
  by (intro exI[of _ "s\<lparr>ticks := Suc (ticks s), trace := trace s @ pre @ fallback_logs m\<rparr>"]
      exI[of _ pre] exI[of _ m]) simp

lemma elevenlabs_fallback:
  assumes "elevenlabs_fails vm env text r p v s"
  shows "\<exists>s1 pre m. apply_elevenlabs_modulation vm env text r p v s =
                       apply_gtts_modulation env text r p v s1 \<and>
           ticks s1 = Suc (ticks s) \<and>
           trace s1 = trace s @ pre @ fallback_logs m \<and>
           filter is_gtts_save pre = []"
proof (cases "fst (os_makedirs env (os_path_dirname (mp3_path env s)) s) = None")
  case False
  show ?thesis
    by (rule fallback_intro [OF elevenlabs_makedirs_raises [OF False]]) simp
next
  case mk: True
  show ?thesis
  proof (cases "post_outcome env (elevenlabs_url vm) (ssml_text text r p v) (stability r)")
    case (Inl e)
    show ?thesis
      by (rule fallback_intro [OF elevenlabs_post_raises [OF mk Inl]]) simp
  next
    case (Inr resp)
    obtain status_code content where resp: "resp = (status_code, content)"
      by (cases resp)
    show ?thesis
    proof (cases "status_code = 200")
      case False
      show ?thesis
        by (rule fallback_intro [OF elevenlabs_status_not_200 [OF mk Inr [unfolded resp] False]])
          simp
    next
      case True
      with assms mk Inr resp have wr: "write_outcome env (mp3_path env s) content \<noteq> None"
        by (simp add: elevenlabs_fails_def)
      show ?thesis
        by (rule fallback_intro
              [OF elevenlabs_write_raises [OF mk Inr [unfolded resp True] wr]]) simp
    qed
  qed
qed





section \<open>Facts about \<^verbatim>\<open>generate_speech\<close> and \<^verbatim>\<open>process\<close>\<close>




lemma generate_speech_unfold:
  assumes "scaled_modifiers label intens = Inr (r, p, v)"
  shows "fst (generate_speech vm env text (Some label) intens output_file s) =
           (case fst (prepare_output_dir env output_file
                       (write_log INFO ''Modifiers''
                         (write_log INFO ''Generating speech for emotion'' s))) of
              Some e \<Rightarrow> Inl e
            | None \<Rightarrow>
                Inr (fst (dispatch vm env text r p v
                           (snd (prepare_output_dir env output_file
                                  (write_log INFO ''Modifiers''
                                    (write_log INFO ''Generating speech for emotion'' s)))))))"
  using assms
  by (simp add: generate_speech_def Let_def split: prod.splits option.splits)


lemma generate_speech_bare_file_name:
  "fst (generate_speech vm env text emo intens (Some ''out.wav'') s) =
     Inl (if emo = None then AttributeError else FileNotFoundError)"
proof (cases emo)
  case None
  then show ?thesis by (simp add: generate_speech_def)
next
  case (Some label)
  obtain r p v where "scaled_modifiers label intens = Inr (r, p, v)"
    using scaled_modifiers_total by blast
  with Some show ?thesis
    by (simp add: generate_speech_def prepare_output_dir_def dirname_bare os_makedirs_def Let_def)
qed


lemma analyze_ticks: "ticks (snd (analyze_with_intensity det text s)) = ticks s"
  by (simp add: analyze_with_intensity_def detect_emotion_def basic_sentiment_analysis_def
      advanced_emotion_analysis_def Let_def case_prod_beta write_log_def emit_def
      split: option.splits sum.splits)

lemma hello_analysis:
  "fst (analyze_with_intensity demo_detector ''hello'' s) =
     \<lparr>emotion = Some ''happy'', score = 0.88,
      details = [(''polarity'', 0.5), (''subjectivity'', 0.75), (''exclamations'', 0),
                 (''questions'', 0), (''caps_ratio'', 0)],
      intensity = ''high''\<rparr>"
  by (simp add: analyze_with_intensity_def detect_emotion_def basic_sentiment_analysis_def
      demo_detector_def Let_def py_round2_def round_half_even_def clean_text_def strip_def
      isspace_def isupper_def case_prod_beta)

lemma process_fst:
  "fst (process eng env text output_file s) =
     (case fst (generate_speech (voice_modulator eng) env text
                 (emotion (fst (analyze_with_intensity (emotion_detector eng) text
                                 (write_log INFO ''Processing text'' s))))
                 (intensity (fst (analyze_with_intensity (emotion_detector eng) text
                                 (write_log INFO ''Processing text'' s))))
                 output_file
                 (write_log INFO ''Detected emotion and intensity''
                   (snd (analyze_with_intensity (emotion_detector eng) text
                                 (write_log INFO ''Processing text'' s))))) of
        Inl e \<Rightarrow> Inl e
      | Inr audio_file \<Rightarrow>
          Inr (audio_file, fst (analyze_with_intensity (emotion_detector eng) text
                                 (write_log INFO ''Processing text'' s))))"
  by (simp add: process_def Let_def case_prod_beta split: sum.splits)

lemma process_bare_file_name:
  "fst (process eng env text (Some ''out.wav'') s) =
     Inl (if emotion (fst (analyze_with_intensity (emotion_detector eng) text
                             (write_log INFO ''Processing text'' s))) = None
          then AttributeError else FileNotFoundError)"
  by (simp add: process_fst generate_speech_bare_file_name)

lemma process_demo_none:
  "fst (process (demo_engine ''gtts'') demo_env ''hello'' None demo_state) =
     Inr (Some ''/app/output/speech_1700000000.mp3'',
          \<lparr>emotion = Some ''happy'', score = 0.88,
           details = [(''polarity'', 0.5), (''subjectivity'', 0.75), (''exclamations'', 0),
                      (''questions'', 0), (''caps_ratio'', 0)],
           intensity = ''high''\<rparr>)"
proof -
  let ?s = "write_log INFO ''Modifiers''
             (write_log INFO ''Generating speech for emotion''
               (write_log INFO ''Detected emotion and intensity''
                 (snd (analyze_with_intensity demo_detector ''hello''
                        (write_log INFO ''Processing text'' demo_state)))))"
  have "ticks ?s = ticks (demo_state\<lparr>ticks := 0\<rparr>)"
    by (simp add: write_log_def analyze_ticks demo_state_def)
  then have "fst (apply_gtts_modulation demo_env ''hello'' 1.3 1.225 1.15 ?s) =
        fst (apply_gtts_modulation demo_env ''hello'' 1.3 1.225 1.15 (demo_state\<lparr>ticks := 0\<rparr>))"
    by (rule gtts_fst_ticks)
  then have g: "fst (apply_gtts_modulation demo_env ''hello'' 1.3 1.225 1.15 ?s) =
        Some ''/app/output/speech_1700000000.mp3''"
    by (simp only: gtts_first)
  have "fst (generate_speech (demo_modulator ''gtts'') demo_env ''hello'' (Some ''happy'') ''high''
          None
          (write_log INFO ''Detected emotion and intensity''
            (snd (analyze_with_intensity demo_detector ''hello''
                   (write_log INFO ''Processing text'' demo_state)))))
        = Inr (Some ''/app/output/speech_1700000000.mp3'')"
    unfolding generate_speech_unfold [OF happy_high]
    using g by (simp add: prepare_output_dir_def dispatch_def demo_modulator_def)
  then show ?thesis
    by (simp add: process_fst demo_engine_def hello_analysis)
qed

section \<open>Prosody mapper\<close>



section \<open>Normalizer\<close>

text \<open>
  C2. The property is that \<^verbatim>\<open>_clean_text\<close> is idempotent and that its output has every run
  of whitespace collapsed to one space and no leading or trailing whitespace. The function
  collapses and strips first and deletes URLs afterwards, so the spaces around a deleted
  URL stay: on \<open>a http://x b\<close> it returns \<open>a\<close>, two spaces, \<open>b\<close>, cleaning that again returns
  a different text with one space, and on \<open>http://x b\<close> it returns a text that starts with
  a space.
\<close>

theorem clean_text_leaves_double_space:
  "clean_text ''a http://x b'' = ''a  b'' \<and>
   clean_text (clean_text ''a http://x b'') = ''a b'' \<and>
   clean_text (clean_text ''a http://x b'') \<noteq> clean_text ''a http://x b'' \<and>
   clean_text ''http://x b'' = '' b''"
  by (simp add: clean_text_def strip_def isspace_def)

section \<open>Lexical classifier\<close>



section \<open>Intensity estimator\<close>

text \<open>
  C4. \<^verbatim>\<open>analyze_with_intensity\<close> keeps the score of the classifier, takes the base tier
  from it (below 0.4 low, below 0.7 medium, otherwise high) and returns high instead
  whenever the text has more than two exclamation marks or more than 0.3 upper-case
  letters per non-space character; a base tier high stays high, and a text with four
  exclamation marks gets tier high whatever the score is.
\<close>

theorem intensity_tier:
  "intensity (fst (analyze_with_intensity det text s)) =
     (if spec_escalates text then ''high''
      else spec_base_tier (score (fst (detect_emotion det text s)))) \<and>
   score (fst (analyze_with_intensity det text s)) = score (fst (detect_emotion det text s)) \<and>
   (spec_base_tier (score (fst (detect_emotion det text s))) = ''high'' \<longrightarrow>
      intensity (fst (analyze_with_intensity det text s)) = ''high'') \<and>
   (length (filter (\<lambda>c. c = CHR ''!'') text) = 4 \<longrightarrow>
      intensity (fst (analyze_with_intensity det text s)) = ''high'')"
  unfolding analyze_with_intensity_def caps_ratio_eq
  by (simp add: spec_escalates_def spec_base_tier_def Let_def split: prod.splits)

theorem intensity_tier_witness:
  "score (fst (detect_emotion flat_detector ''ok!!!!'' demo_state)) = 0.5 \<and>
   spec_base_tier 0.5 = ''medium'' \<and>
   intensity (fst (analyze_with_intensity flat_detector ''ok!!!!'' demo_state)) = ''high''"
proof -
  have sc: "score (fst (detect_emotion flat_detector ''ok!!!!'' demo_state)) = 0.5"
    by (simp add: detect_emotion_def flat_detector_def basic_sentiment_analysis_def py_round2_def
        round_half_even_def Let_def)
  have four: "length (filter (\<lambda>c. c = CHR ''!'') ''ok!!!!'') = 4"
    by simp
  have med: "spec_base_tier 0.5 = ''medium''"
    by (simp add: spec_base_tier_def)
  have "intensity (fst (analyze_with_intensity flat_detector ''ok!!!!'' demo_state)) = ''high''"
    using intensity_tier [of flat_detector "''ok!!!!''" demo_state] four by blast
  with sc med show ?thesis by blast
qed

section \<open>Empty input\<close>

text \<open>
  C5. On the empty text \<^verbatim>\<open>detect_emotion\<close> returns the fixed result: label neutral, score
  1.0, no details. It does so for every detector and leaves the state as it was: no
  exception, no call of the scorer or of the transformer pipeline, no log record.
\<close>

theorem empty_text_is_neutral:
  "detect_emotion det [] s = (\<lparr>emotion = Some ''neutral'', score = 1.0, details = []\<rparr>, s)"
  by (simp add: detect_emotion_def)

theorem empty_text_is_neutral_witness:
  "detect_emotion demo_detector [] demo_state =
     (\<lparr>emotion = Some ''neutral'', score = 1, details = []\<rparr>, demo_state) \<and>
   trace (snd (detect_emotion demo_detector [] demo_state)) = []"
  using empty_text_is_neutral [of demo_detector demo_state] by (simp add: demo_state_def)

section \<open>Fallback of the ElevenLabs backend\<close>

text \<open>
  C6. Whenever the ElevenLabs backend fails (an exception anywhere in its \<^verbatim>\<open>try\<close> block,
  or an HTTP status other than 200, for instance 401), \<^verbatim>\<open>_apply_elevenlabs_modulation\<close>
  raises nothing: what it returns, and the whole rest of its run, is one call of
  \<^verbatim>\<open>_apply_gtts_modulation\<close> with the same text and the same three multipliers. That
  call starts after the error record and the warning \<open>Falling back to gTTS\<close> have been
  logged, nothing was handed to gTTS before it, and at most one gTTS synthesis is in the
  trace of the run.
\<close>

theorem elevenlabs_falls_back_once:
  assumes "elevenlabs_fails vm env text r p v s"
  shows "(\<exists>s1 pre m. apply_elevenlabs_modulation vm env text r p v s =
                        apply_gtts_modulation env text r p v s1 \<and>
            ticks s1 = Suc (ticks s) \<and>
            trace s1 = trace s @ pre @ fallback_logs m \<and>
            filter is_gtts_save pre = []) \<and>
         length (filter is_gtts_save
                  (trace (snd (apply_elevenlabs_modulation vm env text r p v s))))
           \<le> Suc (length (filter is_gtts_save (trace s)))"
proof -
  from elevenlabs_fallback [OF assms] obtain s1 pre m where
    run: "apply_elevenlabs_modulation vm env text r p v s = apply_gtts_modulation env text r p v s1"
    and tr: "trace s1 = trace s @ pre @ fallback_logs m"
    and pre: "filter is_gtts_save pre = []"
    by blast
  obtain ev where ev: "trace (snd (apply_gtts_modulation env text r p v s1)) = trace s1 @ ev"
    and one: "length (filter is_gtts_save ev) \<le> 1"
    using gtts_trace by blast
  have "length (filter is_gtts_save
                 (trace (snd (apply_elevenlabs_modulation vm env text r p v s))))
           \<le> Suc (length (filter is_gtts_save (trace s)))"
    using one by (simp add: run ev tr pre)
  with elevenlabs_fallback [OF assms] show ?thesis by blast
qed

theorem elevenlabs_falls_back_once_witness:
  "elevenlabs_fails (demo_modulator ''elevenlabs'') demo_env ''hello'' 1 1 1 demo_state \<and>
   fst (apply_elevenlabs_modulation (demo_modulator ''elevenlabs'') demo_env ''hello'' 1 1 1
          demo_state)
     = Some ''/app/output/speech_1700000000.mp3''"
proof -
  have fails: "elevenlabs_fails (demo_modulator ''elevenlabs'') demo_env ''hello'' 1 1 1 demo_state"
    by (simp add: elevenlabs_fails_def demo_env_def)
  from elevenlabs_falls_back_once [OF fails] obtain s1 where
    run: "apply_elevenlabs_modulation (demo_modulator ''elevenlabs'') demo_env ''hello'' 1 1 1
            demo_state = apply_gtts_modulation demo_env ''hello'' 1 1 1 s1"
    and t: "ticks s1 = Suc (ticks demo_state)"
    by blast
  have "fst (apply_gtts_modulation demo_env ''hello'' 1 1 1 s1)
          = Some ''/app/output/speech_1700000000.mp3''"
    using demo_mp3_second dirname_demo_mp3
    by (simp add: gtts_fst t demo_state_def fst_os_makedirs) (simp add: demo_env_def)
  with fails run show ?thesis by simp
qed

section \<open>Exceptions that leave \<^verbatim>\<open>process\<close>\<close>

text \<open>
  C7. The property is that \<^verbatim>\<open>process\<close> returns a pair for every text and every output
  path and never lets an exception out. \<^verbatim>\<open>generate_speech\<close> creates the parent directory
  of the output path outside every \<^verbatim>\<open>try\<close> block, and for a bare file name that
  directory is the empty path: with the output path \<open>out.wav\<close> the call raises
  \<^verbatim>\<open>FileNotFoundError\<close> with either backend, on a machine where the same call without
  an output path returns the audio file and the analysis.
\<close>

theorem process_lets_exception_escape:
  "fst (process (demo_engine ''pyttsx3'') demo_env ''hello'' (Some ''out.wav'') demo_state)
     = Inl FileNotFoundError \<and>
   fst (process (demo_engine ''gtts'') demo_env ''hello'' (Some ''out.wav'') demo_state)
     = Inl FileNotFoundError \<and>
   fst (process (demo_engine ''gtts'') demo_env ''hello'' None demo_state)
     = Inr (Some ''/app/output/speech_1700000000.mp3'',
            \<lparr>emotion = Some ''happy'', score = 0.88,
             details = [(''polarity'', 0.5), (''subjectivity'', 0.75), (''exclamations'', 0),
                        (''questions'', 0), (''caps_ratio'', 0)],
             intensity = ''high''\<rparr>)"
proof -
  have a: "fst (process (demo_engine k) demo_env ''hello'' (Some ''out.wav'') demo_state)
             = Inl FileNotFoundError" for k
    by (simp add: process_bare_file_name demo_engine_def hello_analysis)
  from a [of "''pyttsx3''"] a [of "''gtts''"] process_demo_none show ?thesis
    by blast
qed

section \<open>Percentage deltas of the ElevenLabs markup\<close>




section \<open>Names of the output files\<close>

text \<open>
  C9. The property is that two synthesis calls never get the same file name. The name
  holds the clock reading cut to whole seconds: two calls of the gTTS backend, and two
  calls of the local backend, at the different readings 1700000000.25 and 1700000000.75
  return the same path, so the second call writes over the file of the first.
\<close>

theorem same_second_same_file:
  "fst (apply_gtts_modulation demo_env ''first'' 1 1 1 demo_state)
     = Some ''/app/output/speech_1700000000.mp3'' \<and>
   fst (apply_gtts_modulation demo_env ''second'' 1 1 1
          (snd (apply_gtts_modulation demo_env ''first'' 1 1 1 demo_state)))
     = Some ''/app/output/speech_1700000000.mp3'' \<and>
   fst (apply_pyttsx3_modulation (demo_modulator ''pyttsx3'') demo_env ''first'' 1 1 1 demo_state)
     = Some ''/app/output/speech_1700000000.wav'' \<and>
   fst (apply_pyttsx3_modulation (demo_modulator ''pyttsx3'') demo_env ''second'' 1 1 1
          (snd (apply_pyttsx3_modulation (demo_modulator ''pyttsx3'') demo_env ''first'' 1 1 1
                 demo_state)))
     = Some ''/app/output/speech_1700000000.wav'' \<and>
   clock demo_env 0 \<noteq> clock demo_env 1"
proof -
  have a: "fst (apply_gtts_modulation demo_env ''first'' 1 1 1 demo_state)
     = Some ''/app/output/speech_1700000000.mp3''"
    using gtts_first [of "''first''" 1 1 1 demo_state] by (simp add: demo_state_def)
  have t: "ticks (snd (apply_gtts_modulation demo_env ''first'' 1 1 1 demo_state)) = Suc 0"
    by (simp add: gtts_ticks demo_state_def)
  have "fst (apply_gtts_modulation demo_env ''second'' 1 1 1
          (snd (apply_gtts_modulation demo_env ''first'' 1 1 1 demo_state)))
        = fst (apply_gtts_modulation demo_env ''second'' 1 1 1 (demo_state\<lparr>ticks := Suc 0\<rparr>))"
    by (rule gtts_fst_ticks) (simp add: t)
  then have b: "fst (apply_gtts_modulation demo_env ''second'' 1 1 1
          (snd (apply_gtts_modulation demo_env ''first'' 1 1 1 demo_state)))
     = Some ''/app/output/speech_1700000000.mp3''"
    by (simp add: gtts_second)
  have c: "fst (apply_pyttsx3_modulation (demo_modulator ''pyttsx3'') demo_env ''first'' 1 1 1
                 demo_state)
     = Some ''/app/output/speech_1700000000.wav''"
    using demo_wav_first dirname_demo_wav
    by (simp add: pyttsx3_plain fst_os_makedirs demo_state_def) (simp add: demo_env_def)
  have d: "fst (apply_pyttsx3_modulation (demo_modulator ''pyttsx3'') demo_env ''second'' 1 1 1
          (snd (apply_pyttsx3_modulation (demo_modulator ''pyttsx3'') demo_env ''first'' 1 1 1
                 demo_state)))
     = Some ''/app/output/speech_1700000000.wav''"
    using demo_wav_second dirname_demo_wav
    by (simp add: pyttsx3_plain fst_os_makedirs pyttsx3_ticks demo_state_def)
      (simp add: demo_env_def)
  have e: "clock demo_env 0 \<noteq> clock demo_env 1"
    by (simp add: demo_env_def)
  from a b c d e show ?thesis by blast
qed

section \<open>The \<^verbatim>\<open>output_file\<close> argument\<close>




end
